theory Spec2Isabelle
  imports Complex_Main "HOL-Library.Word" "HOL-Library.Sublist"
begin

unbundle bit_operations_syntax

section \<open>Python values and the operations run.py applies to them\<close>

text \<open>
  The body of a backend response is whatever \<^verbatim>\<open>response.json()\<close> decodes: an arbitrary
  JSON value, held as the Python object it becomes. An object is a dict, kept as the list of
  its items in insertion order (keys distinct); a number is an int or a float, both
  rationals here, since only its truth value (zero or not) is ever inspected.
\<close>

datatype json =
    JNull
  | JBool bool
  | JNum rat
  | JStr string
  | JArr "json list"
  | JObj "(string \<times> json) list"

text \<open>
  The exceptions the relay code can meet. The first three are raised by the requests
  library: by \<^verbatim>\<open>requests.post\<close> (any connection, timeout or URL error), by
  \<^verbatim>\<open>raise_for_status\<close>, and by \<^verbatim>\<open>response.json()\<close> for a body that is not
  JSON. The class raised by \<^verbatim>\<open>response.json()\<close> for such a body (requests 2.27 and
  later) derives from both \<^verbatim>\<open>RequestException\<close> and
  \<^verbatim>\<open>json.JSONDecodeError\<close>. A plain \<^verbatim>\<open>ValueError\<close> (an integer literal over the
  digit limit) and a \<^verbatim>\<open>RecursionError\<close> (nesting too deep) are instances of
  neither, nor of \<^verbatim>\<open>KeyError\<close>.
\<close>

datatype exn =
    RequestException
  | HTTPError
  | RequestsJSONDecodeError
  | ValueError
  | RecursionError
  | AttributeError
  | TypeError
  | KeyError

fun isinstance_RequestException :: "exn \<Rightarrow> bool" where
  "isinstance_RequestException RequestException = True"
| "isinstance_RequestException HTTPError = True"
| "isinstance_RequestException RequestsJSONDecodeError = True"
| "isinstance_RequestException ValueError = False"
| "isinstance_RequestException RecursionError = False"
| "isinstance_RequestException AttributeError = False"
| "isinstance_RequestException TypeError = False"
| "isinstance_RequestException KeyError = False"

fun isinstance_JSONDecodeError_or_KeyError :: "exn \<Rightarrow> bool" where
  "isinstance_JSONDecodeError_or_KeyError RequestsJSONDecodeError = True"
| "isinstance_JSONDecodeError_or_KeyError KeyError = True"
| "isinstance_JSONDecodeError_or_KeyError RequestException = False"
| "isinstance_JSONDecodeError_or_KeyError HTTPError = False"
| "isinstance_JSONDecodeError_or_KeyError ValueError = False"
| "isinstance_JSONDecodeError_or_KeyError RecursionError = False"
| "isinstance_JSONDecodeError_or_KeyError AttributeError = False"
| "isinstance_JSONDecodeError_or_KeyError TypeError = False"

text \<open>Truth value of an object, as \<^verbatim>\<open>if x:\<close> and \<^verbatim>\<open>x and y\<close> test it.\<close>

fun truthy :: "json \<Rightarrow> bool" where
  "truthy JNull = False"
| "truthy (JBool b) = b"
| "truthy (JNum q) = (q \<noteq> 0)"
| "truthy (JStr s) = (s \<noteq> [])"
| "truthy (JArr xs) = (xs \<noteq> [])"
| "truthy (JObj kvs) = (kvs \<noteq> [])"

text \<open>Truth value of a variable that holds \<^verbatim>\<open>None\<close> or a string.\<close>

fun truthy_str :: "string option \<Rightarrow> bool" where
  "truthy_str None = False"
| "truthy_str (Some s) = (s \<noteq> [])"

text \<open>\<^verbatim>\<open>x.get(key, default)\<close>: only a dict has the method.\<close>

fun py_get :: "json \<Rightarrow> string \<Rightarrow> json \<Rightarrow> exn + json" where
  "py_get (JObj kvs) k d = Inr (case map_of kvs k of None \<Rightarrow> d | Some v \<Rightarrow> v)"
| "py_get JNull k d = Inl AttributeError"
| "py_get (JBool b) k d = Inl AttributeError"
| "py_get (JNum q) k d = Inl AttributeError"
| "py_get (JStr s) k d = Inl AttributeError"
| "py_get (JArr xs) k d = Inl AttributeError"

text \<open>
  \<^verbatim>\<open>x[key]\<close> with a string key: a dict looks the key up, a str or a list wants an
  integer index, the other objects are not subscriptable.
\<close>

fun py_getitem :: "json \<Rightarrow> string \<Rightarrow> exn + json" where
  "py_getitem (JObj kvs) k = (case map_of kvs k of None \<Rightarrow> Inl KeyError | Some v \<Rightarrow> Inr v)"
| "py_getitem JNull k = Inl TypeError"
| "py_getitem (JBool b) k = Inl TypeError"
| "py_getitem (JNum q) k = Inl TypeError"
| "py_getitem (JStr s) k = Inl TypeError"
| "py_getitem (JArr xs) k = Inl TypeError"

text \<open>
  \<^verbatim>\<open>key in x\<close> with a string key: a key of the dict, an element of the list, a
  substring of the str; the other objects are not containers.
\<close>

fun py_contains :: "string \<Rightarrow> json \<Rightarrow> exn + bool" where
  "py_contains k (JObj kvs) = Inr (k \<in> set (map fst kvs))"
| "py_contains k (JArr xs) = Inr (JStr k \<in> set xs)"
| "py_contains k (JStr s) = Inr (sublist k s)"
| "py_contains k JNull = Inl TypeError"
| "py_contains k (JBool b) = Inl TypeError"
| "py_contains k (JNum q) = Inl TypeError"

text \<open>
  The elements a \<^verbatim>\<open>for\<close> loop visits: those of a list, the characters of a str, the
  keys of a dict; the other objects are not iterable.
\<close>

fun py_iter :: "json \<Rightarrow> exn + json list" where
  "py_iter (JArr xs) = Inr xs"
| "py_iter (JStr s) = Inr (map (\<lambda>c. JStr [c]) s)"
| "py_iter (JObj kvs) = Inr (map (\<lambda>kv. JStr (fst kv)) kvs)"
| "py_iter JNull = Inl TypeError"
| "py_iter (JBool b) = Inl TypeError"
| "py_iter (JNum q) = Inl TypeError"

text \<open>\<^verbatim>\<open>reversed(x)\<close>: lists, strs and (from Python 3.8) dicts are reversible.\<close>

fun py_reversed :: "json \<Rightarrow> exn + json list" where
  "py_reversed (JArr xs) = Inr (rev xs)"
| "py_reversed (JStr s) = Inr (rev (map (\<lambda>c. JStr [c]) s))"
| "py_reversed (JObj kvs) = Inr (rev (map (\<lambda>kv. JStr (fst kv)) kvs))"
| "py_reversed JNull = Inl TypeError"
| "py_reversed (JBool b) = Inl TypeError"
| "py_reversed (JNum q) = Inl TypeError"

text \<open>\<^verbatim>\<open>str(n)\<close> of an int, and the rendering of \<^verbatim>\<open>None\<close> inside an f-string.\<close>

fun str_nat :: "nat \<Rightarrow> string" where
  "str_nat n =
     (if n < 10 then [''0123456789'' ! n]
      else str_nat (n div 10) @ [''0123456789'' ! (n mod 10)])"

declare str_nat.simps [simp del]

definition str_int :: "int \<Rightarrow> string" where
  "str_int i = (if i < 0 then ''-'' @ str_nat (nat (- i)) else str_nat (nat i))"

fun format_opt :: "string option \<Rightarrow> string" where
  "format_opt None = ''None''"
| "format_opt (Some s) = s"

text \<open>
  \<^verbatim>\<open>str(uuid.uuid4())\<close>: sixteen random bytes with the version and variant bits
  forced, printed as 32 lower-case hexadecimal digits in groups of 8-4-4-4-12.
\<close>

definition uuid4 :: "128 word \<Rightarrow> 128 word" where
  "uuid4 r =
     (((r AND NOT (push_bit 48 0xc000)) OR push_bit 48 0x8000)
        AND NOT (push_bit 64 0xf000)) OR push_bit 76 4"

definition hex32 :: "128 word \<Rightarrow> string" where
  "hex32 w = map (\<lambda>i. ''0123456789abcdef'' ! unat (drop_bit (4 * (31 - i)) w AND 15)) [0..<32]"

definition str_uuid :: "128 word \<Rightarrow> string" where
  "str_uuid u =
     (let h = hex32 u in
      take 8 h @ ''-'' @ take 4 (drop 8 h) @ ''-'' @ take 4 (drop 12 h) @ ''-''
        @ take 4 (drop 16 h) @ ''-'' @ drop 20 h)"

section \<open>The world outside the process\<close>

text \<open>
  What \<^verbatim>\<open>requests.post\<close> is called with: the URL, the headers and the payload
  (the object handed to \<^verbatim>\<open>json.dumps\<close>).
\<close>

record request =
  url :: string
  headers :: "(string \<times> string) list"
  data :: json

text \<open>
  What lines 112 and 113 make of a response body: it decodes to a value that the
  \<^verbatim>\<open>print\<close> of line 113 can serialise again; or it is not JSON; or it holds an
  integer literal longer than the interpreter's digit limit; or it is nested deeper than
  the decoder or the serialiser of line 113 can recurse.
\<close>

datatype body =
    Decodes json
  | NotJSON
  | IntegerTooLong
  | NestedTooDeep

text \<open>A response carries its status code and its body.\<close>

record response =
  status_code :: nat
  body :: body

datatype post_result = Raises | Responds response

text \<open>
  The configuration read at start-up and the answers of the collaborators while one message
  is handled: the token service (\<open>None\<close>: the fetch raised), the random bytes behind
  \<^verbatim>\<open>uuid.uuid4()\<close>, and the backend.
\<close>

record env =
  ADK_BASE_URL :: "string option"
  ADK_APP_NAME :: "string option"
  fetch_id_token :: "string \<Rightarrow> string option"
  urandom16 :: "128 word"
  post :: "request \<Rightarrow> post_result"

text \<open>\<^verbatim>\<open>user_sessions\<close>: the dict from Discord user id to session id.\<close>

type_synonym registry = "int \<rightharpoonup> string"

text \<open>
  The calls that leave the process, in the order made, named by the place in run.py that
  makes them: the POST of \<^verbatim>\<open>create_adk_session\<close>, the POST of
  \<^verbatim>\<open>send_query_to_adk\<close>, \<^verbatim>\<open>message.channel.send\<close> with its argument, and
  entering and leaving \<^verbatim>\<open>message.channel.typing()\<close>. A reply is the call of
  \<^verbatim>\<open>message.channel.send\<close>; what the chat platform does with it is outside run.py.
\<close>

datatype event =
    CreatePost request
  | RunPost request
  | Send json
  | TypingEnter
  | TypingExit

text \<open>The fixed texts of run.py.\<close>

definition greeting_text :: string where
  "greeting_text = ''Hello! How can I help you today?''"

definition create_failed_text :: string where
  "create_failed_text =
     ''Sorry, I couldn'' @ [CHR 0x27] @ ''t create a new support session. Please try again later.''"

definition session_issue_text :: string where
  "session_issue_text = ''There was an issue with your session. Please try again.''"

definition not_understood_text :: string where
  "not_understood_text =
     ''Sorry, I couldn'' @ [CHR 0x27] @ ''t understand the response from the agent.''"

definition resend_text :: string where
  "resend_text =
     ''Oops. There was an error. Re-sending your question usually fixes it. (It''
       @ [CHR 0x27] @ ''s a session management bug).''"

definition unexpected_text :: string where
  "unexpected_text = ''Sorry, I received an unexpected response from the support agent.''"

section \<open>The functions of run.py\<close>

text \<open>
  \<^verbatim>\<open>_get_authenticated_headers\<close>: the token is fetched only when the base URL is set,
  and a fetch that raises is caught and leaves the headers without it.
\<close>

definition get_authenticated_headers :: "env \<Rightarrow> (string \<times> string) list" where
  "get_authenticated_headers e =
     (let headers = [(''Content-Type'', ''application/json'')] in
      if \<not> truthy_str (ADK_BASE_URL e) then headers
      else (case fetch_id_token e (format_opt (ADK_BASE_URL e)) of
              Some id_token \<Rightarrow> headers @ [(''Authorization'', ''Bearer '' @ id_token)]
            | None \<Rightarrow> headers))"

text \<open>
  \<^verbatim>\<open>requests.post\<close> followed by \<^verbatim>\<open>response.raise_for_status()\<close>, which raises
  for the status codes 400 to 599.
\<close>

definition post_and_raise_for_status :: "env \<Rightarrow> request \<Rightarrow> exn + response" where
  "post_and_raise_for_status e rq =
     (case post e rq of
        Raises \<Rightarrow> Inl RequestException
      | Responds r \<Rightarrow>
          if 400 \<le> status_code r \<and> status_code r < 600 then Inl HTTPError else Inr r)"

definition create_request :: "env \<Rightarrow> string \<Rightarrow> string \<Rightarrow> string \<Rightarrow> request" where
  "create_request e discord_user_id adk_user_id adk_session_id =
     \<lparr> url = format_opt (ADK_BASE_URL e) @ ''/apps/'' @ format_opt (ADK_APP_NAME e)
               @ ''/users/'' @ adk_user_id @ ''/sessions/'' @ adk_session_id,
       headers = get_authenticated_headers e,
       data = JObj [(''state'', JObj [(''discord_user_id'', JStr discord_user_id)])] \<rparr>"

text \<open>
  \<^verbatim>\<open>create_adk_session\<close> returns the pair of user id and session id, or
  \<^verbatim>\<open>(None, None)\<close>; it neither reads nor writes \<^verbatim>\<open>user_sessions\<close>. Both
  exceptions its \<^verbatim>\<open>try\<close> can raise are instances of \<^verbatim>\<open>RequestException\<close>, so
  its one handler catches each.
\<close>

definition create_adk_session ::
    "env \<Rightarrow> string \<Rightarrow> event list \<times> string option \<times> string option" where
  "create_adk_session e discord_user_id =
     (let adk_user_id = ''discord_'' @ discord_user_id;
          adk_session_id = str_uuid (uuid4 (urandom16 e));
          rq = create_request e discord_user_id adk_user_id adk_session_id
      in case post_and_raise_for_status e rq of
           Inr r \<Rightarrow> ([CreatePost rq], Some adk_user_id, Some adk_session_id)
         | Inl ex \<Rightarrow> ([CreatePost rq], None, None))"

definition run_request :: "env \<Rightarrow> string \<Rightarrow> string \<Rightarrow> string \<Rightarrow> request" where
  "run_request e adk_user_id adk_session_id user_message =
     \<lparr> url = format_opt (ADK_BASE_URL e) @ ''/run'',
       headers = get_authenticated_headers e,
       data = JObj [(''appName'', (case ADK_APP_NAME e of None \<Rightarrow> JNull | Some a \<Rightarrow> JStr a)),
                    (''userId'', JStr adk_user_id),
                    (''sessionId'', JStr adk_session_id),
                    (''newMessage'',
                       JObj [(''role'', JStr ''user''),
                             (''parts'', JArr [JObj [(''text'', JStr user_message)]])])] \<rparr>"

text \<open>The inner loop, lines 118-120: \<open>Some v\<close> is \<^verbatim>\<open>return v\<close>.\<close>

fun scan_parts :: "json list \<Rightarrow> exn + json option" where
  "scan_parts [] = Inr None"
| "scan_parts (part # rest) =
     (case py_contains ''text'' part of
        Inl ex \<Rightarrow> Inl ex
      | Inr True \<Rightarrow> (case py_getitem part ''text'' of Inl ex \<Rightarrow> Inl ex | Inr v \<Rightarrow> Inr (Some v))
      | Inr False \<Rightarrow> scan_parts rest)"

text \<open>
  The test of line 116,
  \<^verbatim>\<open>item.get("content") and item.get("content").get("role") == "model"\<close>.
\<close>

definition is_model_item :: "json \<Rightarrow> exn + bool" where
  "is_model_item item =
     (case py_get item ''content'' JNull of
        Inl ex \<Rightarrow> Inl ex
      | Inr c \<Rightarrow>
          if \<not> truthy c then Inr False
          else (case py_get item ''content'' JNull of
                  Inl ex \<Rightarrow> Inl ex
                | Inr c' \<Rightarrow>
                    (case py_get c' ''role'' JNull of
                       Inl ex \<Rightarrow> Inl ex
                     | Inr role \<Rightarrow> Inr (role = JStr ''model''))))"

text \<open>
  Line 117 and the start of the loop of line 118:
  \<^verbatim>\<open>item["content"].get("parts", [])\<close>, then the elements the loop visits.
\<close>

definition item_parts :: "json \<Rightarrow> exn + json list" where
  "item_parts item =
     (case py_getitem item ''content'' of
        Inl ex \<Rightarrow> Inl ex
      | Inr c \<Rightarrow>
          (case py_get c ''parts'' (JArr []) of
             Inl ex \<Rightarrow> Inl ex
           | Inr parts \<Rightarrow> py_iter parts))"

text \<open>The outer loop, lines 115-120, over the items already reversed.\<close>

fun scan_items :: "json list \<Rightarrow> exn + json option" where
  "scan_items [] = Inr None"
| "scan_items (item # rest) =
     (case is_model_item item of
        Inl ex \<Rightarrow> Inl ex
      | Inr False \<Rightarrow> scan_items rest
      | Inr True \<Rightarrow>
          (case item_parts item of
             Inl ex \<Rightarrow> Inl ex
           | Inr parts \<Rightarrow>
               (case scan_parts parts of
                  Inl ex \<Rightarrow> Inl ex
                | Inr (Some v) \<Rightarrow> Inr (Some v)
                | Inr None \<Rightarrow> scan_items rest)))"

text \<open>Lines 115-121: the value returned from a decoded body, or the exception raised.\<close>

definition extract_reply :: "json \<Rightarrow> exn + json" where
  "extract_reply response_data =
     (case py_reversed response_data of
        Inl ex \<Rightarrow> Inl ex
      | Inr items \<Rightarrow>
          (case scan_items items of
             Inl ex \<Rightarrow> Inl ex
           | Inr (Some v) \<Rightarrow> Inr v
           | Inr None \<Rightarrow> Inr (JStr not_understood_text)))"

text \<open>
  Lines 112-113, \<^verbatim>\<open>response.json()\<close> and the \<^verbatim>\<open>print\<close> of what it returned:
  the decoded value, or the exception raised. A body that is not JSON raises the requests
  decode error; an over-long integer raises \<^verbatim>\<open>ValueError\<close>; nesting too deep raises
  \<^verbatim>\<open>RecursionError\<close>.
\<close>

fun response_json :: "response \<Rightarrow> exn + json" where
  "response_json r =
     (case body r of
        Decodes response_data \<Rightarrow> Inr response_data
      | NotJSON \<Rightarrow> Inl RequestsJSONDecodeError
      | IntegerTooLong \<Rightarrow> Inl ValueError
      | NestedTooDeep \<Rightarrow> Inl RecursionError)"

text \<open>The body of the \<^verbatim>\<open>try\<close> of \<^verbatim>\<open>send_query_to_adk\<close>, lines 110-121.\<close>

definition send_query_try :: "env \<Rightarrow> request \<Rightarrow> exn + json" where
  "send_query_try e rq =
     (case post_and_raise_for_status e rq of
        Inl ex \<Rightarrow> Inl ex
      | Inr r \<Rightarrow>
          (case response_json r of
             Inl ex \<Rightarrow> Inl ex
           | Inr response_data \<Rightarrow> extract_reply response_data))"

text \<open>
  \<^verbatim>\<open>send_query_to_adk\<close> with its two handlers, tried in the order written: the
  first clears \<^verbatim>\<open>user_sessions\<close>. The result is the registry afterwards, the call
  made, and the value returned (\<open>Inr\<close>) or the exception no handler caught (\<open>Inl\<close>).
\<close>

definition send_query_to_adk ::
    "env \<Rightarrow> registry \<Rightarrow> string \<Rightarrow> string \<Rightarrow> string \<Rightarrow> registry \<times> event list \<times> (exn + json)" where
  "send_query_to_adk e user_sessions adk_user_id adk_session_id user_message =
     (let rq = run_request e adk_user_id adk_session_id user_message in
      case send_query_try e rq of
        Inr v \<Rightarrow> (user_sessions, [RunPost rq], Inr v)
      | Inl ex \<Rightarrow>
          if isinstance_RequestException ex then
            (Map.empty, [RunPost rq], Inr (JStr resend_text))
          else if isinstance_JSONDecodeError_or_KeyError ex then
            (user_sessions, [RunPost rq], Inr (JStr unexpected_text))
          else (user_sessions, [RunPost rq], Inl ex))"

text \<open>
  An incoming message: whether \<^verbatim>\<open>message.author == client.user\<close>, whether the channel
  is a \<^verbatim>\<open>discord.DMChannel\<close>, the text, and the author's id.
\<close>

record message =
  author_is_client_user :: bool
  channel_is_DM :: bool
  content :: string
  author_id :: int

text \<open>How a run of \<^verbatim>\<open>on_message\<close> ends: the \<^verbatim>\<open>return\<close> it leaves by, or an exception.\<close>

datatype exit =
    IgnoredOwnMessage
  | IgnoredChannel
  | Greeted
  | CreateFailed
  | SessionIssue
  | Replied
  | Uncaught exn

text \<open>
  Lines 181-187, with the calls made so far. Past the check of line 181 both variables hold
  strings, which \<open>format_opt\<close> reads.
\<close>

definition on_message_relay ::
    "env \<Rightarrow> registry \<Rightarrow> event list \<Rightarrow> string option \<Rightarrow> string option \<Rightarrow> string
      \<Rightarrow> registry \<times> event list \<times> exit" where
  "on_message_relay e user_sessions evs current_adk_user_id adk_session_id content_to_send =
     (if \<not> truthy_str current_adk_user_id \<or> \<not> truthy_str adk_session_id then
        (user_sessions, evs @ [Send (JStr session_issue_text)], SessionIssue)
      else
        (case send_query_to_adk e user_sessions
                (format_opt current_adk_user_id) (format_opt adk_session_id) content_to_send of
           (user_sessions', evs', Inl ex) \<Rightarrow>
             (user_sessions', evs @ [TypingEnter] @ evs' @ [TypingExit], Uncaught ex)
         | (user_sessions', evs', Inr adk_response) \<Rightarrow>
             (user_sessions', evs @ [TypingEnter] @ evs' @ [Send adk_response, TypingExit],
              Replied)))"

text \<open>
  \<^verbatim>\<open>on_message\<close>, run from its first line to its return for one message: the registry
  it leaves, the calls it made, and how it ended.
\<close>

definition on_message :: "env \<Rightarrow> message \<Rightarrow> registry \<Rightarrow> registry \<times> event list \<times> exit" where
  "on_message e message user_sessions =
     (if author_is_client_user message then (user_sessions, [], IgnoredOwnMessage)
      else if \<not> channel_is_DM message then (user_sessions, [], IgnoredChannel)
      else
        let content_to_send = content message in
        if content_to_send = [] then
          (user_sessions, [Send (JStr greeting_text)], Greeted)
        else
          let discord_user_id = author_id message;
              adk_user_id_str = ''discord_'' @ str_int discord_user_id;
              adk_session_id = user_sessions discord_user_id
          in
          if truthy_str adk_session_id then
            on_message_relay e user_sessions [] (Some adk_user_id_str) adk_session_id
              content_to_send
          else
            (case create_adk_session e (str_int discord_user_id) of
               (evs, created_user_id, created_session_id) \<Rightarrow>
                 if truthy_str created_session_id then
                   on_message_relay e (user_sessions(discord_user_id := created_session_id))
                     evs created_user_id created_session_id content_to_send
                 else
                   (user_sessions, evs @ [Send (JStr create_failed_text)], CreateFailed)))"

section \<open>Observations on a run\<close>

text \<open>The arguments of \<^verbatim>\<open>message.channel.send\<close>, and the requests posted, in order.\<close>

fun replies :: "event list \<Rightarrow> json list" where
  "replies [] = []"
| "replies (Send v # evs) = v # replies evs"
| "replies (CreatePost rq # evs) = replies evs"
| "replies (RunPost rq # evs) = replies evs"
| "replies (TypingEnter # evs) = replies evs"
| "replies (TypingExit # evs) = replies evs"

fun create_posts :: "event list \<Rightarrow> request list" where
  "create_posts [] = []"
| "create_posts (CreatePost rq # evs) = rq # create_posts evs"
| "create_posts (RunPost rq # evs) = create_posts evs"
| "create_posts (Send v # evs) = create_posts evs"
| "create_posts (TypingEnter # evs) = create_posts evs"
| "create_posts (TypingExit # evs) = create_posts evs"

fun run_posts :: "event list \<Rightarrow> request list" where
  "run_posts [] = []"
| "run_posts (RunPost rq # evs) = rq # run_posts evs"
| "run_posts (CreatePost rq # evs) = run_posts evs"
| "run_posts (Send v # evs) = run_posts evs"
| "run_posts (TypingEnter # evs) = run_posts evs"
| "run_posts (TypingExit # evs) = run_posts evs"

text \<open>
  A transport failure: \<^verbatim>\<open>requests.post\<close> raised, or the status is one
  \<^verbatim>\<open>raise_for_status\<close> raises for.
\<close>

fun transport_failure :: "post_result \<Rightarrow> bool" where
  "transport_failure Raises = True"
| "transport_failure (Responds r) = (400 \<le> status_code r \<and> status_code r < 600)"

text \<open>
  The registries the process can hold: empty at start-up, then whatever handling one more
  message leaves.
\<close>

inductive reachable :: "registry \<Rightarrow> bool" where
  start: "reachable Map.empty"
| handled: "reachable user_sessions \<Longrightarrow> reachable (fst (on_message e message user_sessions))"

subsection \<open>The response body as a sequence of turn objects\<close>

text \<open>
  The shape the backend's run interface gives a body: an array of objects; the
  \<open>content\<close> of each, when present, is null or an object; the \<open>parts\<close> of a content,
  when present, is an array of objects.
\<close>

fun is_object :: "json \<Rightarrow> bool" where
  "is_object (JObj kvs) = True"
| "is_object JNull = False"
| "is_object (JBool b) = False"
| "is_object (JNum q) = False"
| "is_object (JStr s) = False"
| "is_object (JArr xs) = False"

fun parts_shape :: "json option \<Rightarrow> bool" where
  "parts_shape None = True"
| "parts_shape (Some (JArr ps)) = list_all is_object ps"
| "parts_shape (Some JNull) = False"
| "parts_shape (Some (JBool b)) = False"
| "parts_shape (Some (JNum q)) = False"
| "parts_shape (Some (JStr s)) = False"
| "parts_shape (Some (JObj kvs)) = False"

fun content_shape :: "json option \<Rightarrow> bool" where
  "content_shape None = True"
| "content_shape (Some JNull) = True"
| "content_shape (Some (JObj c)) = parts_shape (map_of c ''parts'')"
| "content_shape (Some (JBool b)) = False"
| "content_shape (Some (JNum q)) = False"
| "content_shape (Some (JStr s)) = False"
| "content_shape (Some (JArr xs)) = False"

fun turn_object :: "json \<Rightarrow> bool" where
  "turn_object (JObj kvs) = content_shape (map_of kvs ''content'')"
| "turn_object JNull = False"
| "turn_object (JBool b) = False"
| "turn_object (JNum q) = False"
| "turn_object (JStr s) = False"
| "turn_object (JArr xs) = False"

fun turn_sequence :: "json \<Rightarrow> bool" where
  "turn_sequence (JArr ts) = list_all turn_object ts"
| "turn_sequence JNull = False"
| "turn_sequence (JBool b) = False"
| "turn_sequence (JNum q) = False"
| "turn_sequence (JStr s) = False"
| "turn_sequence (JObj kvs) = False"

text \<open>The role, the parts and the text parts of a turn, read off the object.\<close>

fun content_of :: "json \<Rightarrow> (string \<times> json) list" where
  "content_of (JObj kvs) = (case map_of kvs ''content'' of Some (JObj c) \<Rightarrow> c | _ \<Rightarrow> [])"
| "content_of JNull = []"
| "content_of (JBool b) = []"
| "content_of (JNum q) = []"
| "content_of (JStr s) = []"
| "content_of (JArr xs) = []"

definition role_is_model :: "json \<Rightarrow> bool" where
  "role_is_model t = (map_of (content_of t) ''role'' = Some (JStr ''model''))"

definition parts_of :: "json \<Rightarrow> json list" where
  "parts_of t = (case map_of (content_of t) ''parts'' of Some (JArr ps) \<Rightarrow> ps | _ \<Rightarrow> [])"

fun part_text :: "json \<Rightarrow> json option" where
  "part_text (JObj kvs) = map_of kvs ''text''"
| "part_text JNull = None"
| "part_text (JBool b) = None"
| "part_text (JNum q) = None"
| "part_text (JStr s) = None"
| "part_text (JArr xs) = None"

fun first_text :: "json list \<Rightarrow> json option" where
  "first_text [] = None"
| "first_text (p # ps) = (case part_text p of Some v \<Rightarrow> Some v | None \<Rightarrow> first_text ps)"

text \<open>
  The reply as the specification words it: scanning from the most recent turn backward, the
  first turn whose role is "model" is taken, and its first text part is the reply.
\<close>

definition reply_of_latest_model_turn :: "json list \<Rightarrow> json option" where
  "reply_of_latest_model_turn ts =
     (case filter role_is_model (rev ts) of
        [] \<Rightarrow> None
      | t # _ \<Rightarrow> first_text (parts_of t))"

text \<open>
  The reply the loops of lines 115-120 compute: scanning backward, the first turn whose role
  is "model" and that has a text part is taken.
\<close>

definition reply_of_latest_model_text :: "json list \<Rightarrow> json option" where
  "reply_of_latest_model_text ts =
     (case filter (\<lambda>t. role_is_model t \<and> first_text (parts_of t) \<noteq> None) (rev ts) of
        [] \<Rightarrow> None
      | t # _ \<Rightarrow> first_text (parts_of t))"

subsection \<open>Sample inputs\<close>

definition sample_env :: "(request \<Rightarrow> post_result) \<Rightarrow> env" where
  "sample_env p =
     \<lparr> ADK_BASE_URL = Some ''http://adk'', ADK_APP_NAME = Some ''support'',
       fetch_id_token = (\<lambda>audience. Some ''token''), urandom16 = 0, post = p \<rparr>"

definition dm :: "int \<Rightarrow> string \<Rightarrow> message" where
  "dm uid txt = \<lparr> author_is_client_user = False, channel_is_DM = True, content = txt,
                  author_id = uid \<rparr>"

definition turn :: "string \<Rightarrow> json list \<Rightarrow> json" where
  "turn role parts = JObj [(''content'', JObj [(''role'', JStr role), (''parts'', JArr parts)])]"

definition text_part :: "string \<Rightarrow> json" where
  "text_part txt = JObj [(''text'', JStr txt)]"

definition ok :: "json \<Rightarrow> post_result" where
  "ok v = Responds \<lparr> status_code = 200, body = Decodes v \<rparr>"

text \<open>A backend that answers the run endpoint one way and every other URL another.\<close>

definition backend :: "post_result \<Rightarrow> post_result \<Rightarrow> request \<Rightarrow> post_result" where
  "backend on_create on_run rq = (if url rq = ''http://adk/run'' then on_run else on_create)"

definition created :: post_result where
  "created = ok (JObj [(''id'', JStr ''session''), (''appName'', JStr ''support'')])"

section \<open>Facts about the functions\<close>

lemma str_uuid_nonempty: "str_uuid u \<noteq> []"
  by (simp add: str_uuid_def Let_def)

lemma replies_append: "replies (a @ b) = replies a @ replies b"
  by (induction a rule: replies.induct) auto
lemma create_posts_append: "create_posts (a @ b) = create_posts a @ create_posts b"
  by (induction a rule: create_posts.induct) auto
lemma run_posts_append: "run_posts (a @ b) = run_posts a @ run_posts b"
  by (induction a rule: run_posts.induct) auto

lemma scan_parts_objects: "list_all is_object ps \<Longrightarrow> scan_parts ps = Inr (first_text ps)"
proof (induction ps)
  case Nil
  then show ?case by simp
next
  case (Cons p ps)
  then obtain kvs where p: "p = JObj kvs" by (cases p) auto
  show ?case
  proof (cases "map_of kvs ''text''")
    case None
    then have "''text'' \<notin> set (map fst kvs)" by (simp add: map_of_eq_None_iff)
    with None Cons p show ?thesis by simp
  next
    case (Some v)
    then have "''text'' \<in> set (map fst kvs)" by (metis map_of_eq_None_iff option.distinct(1) set_map)
    with Some Cons p show ?thesis by simp
  qed
qed

lemma is_model_item_turn: "turn_object t \<Longrightarrow> is_model_item t = Inr (role_is_model t)"
  apply (cases t; simp add: is_model_item_def role_is_model_def)
  subgoal for kvs
    apply (cases "map_of kvs ''content''"; simp)
    subgoal for c
      by (cases c; auto split: option.splits)
    done
  done

lemma item_parts_turn:
  "turn_object t \<Longrightarrow> role_is_model t \<Longrightarrow> item_parts t = Inr (parts_of t) \<and> list_all is_object (parts_of t)"
  apply (cases t; simp add: item_parts_def role_is_model_def parts_of_def)
  subgoal for kvs
    apply (cases "map_of kvs ''content''"; simp)
    subgoal for c
      apply (cases c; simp)
      subgoal for ckvs
        apply (cases "map_of ckvs ''parts''"; simp)
        subgoal for ps by (cases ps; simp)
        done
      done
    done
  done

lemma scan_items_turns:
  "list_all turn_object ts \<Longrightarrow>
   scan_items ts =
     Inr (case filter (\<lambda>t. role_is_model t \<and> first_text (parts_of t) \<noteq> None) ts of
            [] \<Rightarrow> None | t # _ \<Rightarrow> first_text (parts_of t))"
proof (induction ts)
  case Nil
  then show ?case by simp
next
  case (Cons t ts)
  then have t: "turn_object t" and ih: "scan_items ts =
     Inr (case filter (\<lambda>t. role_is_model t \<and> first_text (parts_of t) \<noteq> None) ts of
            [] \<Rightarrow> None | t # _ \<Rightarrow> first_text (parts_of t))" by simp_all
  show ?case
  proof (cases "role_is_model t")
    case False
    with t ih show ?thesis by (simp add: is_model_item_turn)
  next
    case True
    from item_parts_turn [OF t True]
    have ip: "item_parts t = Inr (parts_of t)" and sp: "scan_parts (parts_of t) = Inr (first_text (parts_of t))"
      by (simp_all add: scan_parts_objects)
    show ?thesis
      using t True ih ip sp by (cases "first_text (parts_of t)") (simp_all add: is_model_item_turn)
  qed
qed

lemma extract_reply_turns:
  "turn_sequence (JArr ts) \<Longrightarrow>
   extract_reply (JArr ts) =
     Inr (case reply_of_latest_model_text ts of None \<Rightarrow> JStr not_understood_text | Some v \<Rightarrow> v)"
  by (simp add: extract_reply_def scan_items_turns reply_of_latest_model_text_def split: list.splits option.splits)

lemma send_query_try_ok:
  "post e rq = Responds r \<Longrightarrow> \<not> transport_failure (Responds r) \<Longrightarrow> body r = Decodes v \<Longrightarrow>
   send_query_try e rq = extract_reply v"
  by (auto simp: send_query_try_def post_and_raise_for_status_def)

lemma send_query_try_failure:
  "transport_failure (post e rq) \<Longrightarrow> \<exists>ex. send_query_try e rq = Inl ex \<and> isinstance_RequestException ex"
  by (cases "post e rq") (auto simp: send_query_try_def post_and_raise_for_status_def)

lemma send_query_failure:
  "transport_failure (post e (run_request e u s m)) \<Longrightarrow>
   send_query_to_adk e reg u s m = (Map.empty, [RunPost (run_request e u s m)], Inr (JStr resend_text))"
  using send_query_try_failure [of e "run_request e u s m"]
  by (auto simp: send_query_to_adk_def Let_def)

lemma send_query_events: "fst (snd (send_query_to_adk e reg u s m)) = [RunPost (run_request e u s m)]"
  by (simp add: send_query_to_adk_def Let_def split: sum.splits)

lemma send_query_registry: "fst (send_query_to_adk e reg u s m) = reg \<or> fst (send_query_to_adk e reg u s m) = Map.empty"
  by (simp add: send_query_to_adk_def Let_def split: sum.splits)

lemma relay_result:
  assumes "truthy_str cu" "truthy_str sid"
  shows "on_message_relay e reg pre cu sid m =
     (case send_query_to_adk e reg (format_opt cu) (format_opt sid) m of
        (reg', evs', r) \<Rightarrow>
          (reg', pre @ [TypingEnter] @ evs' @ (case r of Inl ex \<Rightarrow> [TypingExit] | Inr v \<Rightarrow> [Send v, TypingExit]),
           (case r of Inl ex \<Rightarrow> Uncaught ex | Inr v \<Rightarrow> Replied)))"
  using assms by (simp add: on_message_relay_def split: prod.splits sum.splits)


lemma create_adk_session_result:
  "create_adk_session e uid =
     (let sid = str_uuid (uuid4 (urandom16 e));
          rq = create_request e uid (''discord_'' @ uid) sid
      in if transport_failure (post e rq) then ([CreatePost rq], None, None)
         else ([CreatePost rq], Some (''discord_'' @ uid), Some sid))"
  by (cases "post e (create_request e uid (''discord_'' @ uid) (str_uuid (uuid4 (urandom16 e))))")
     (auto simp: create_adk_session_def post_and_raise_for_status_def Let_def)

lemma on_message_cases [consumes 1, case_names own_message other_channel greeted create_failed relayed]:
  assumes run: "on_message e message user_sessions = (user_sessions', evs, x)"
  obtains
    "author_is_client_user message" "user_sessions' = user_sessions" "evs = []"
      "x = IgnoredOwnMessage"
  | "\<not> author_is_client_user message" "\<not> channel_is_DM message"
      "user_sessions' = user_sessions" "evs = []" "x = IgnoredChannel"
  | "\<not> author_is_client_user message" "channel_is_DM message" "content message = []"
      "user_sessions' = user_sessions" "evs = [Send (JStr greeting_text)]" "x = Greeted"
  | rq where "\<not> author_is_client_user message" "channel_is_DM message" "content message \<noteq> []"
      "\<not> truthy_str (user_sessions (author_id message))"
      "rq = create_request e (str_int (author_id message))
              (''discord_'' @ str_int (author_id message)) (str_uuid (uuid4 (urandom16 e)))"
      "transport_failure (post e rq)"
      "snd (create_adk_session e (str_int (author_id message))) = (None, None)"
      "user_sessions' = user_sessions" "evs = [CreatePost rq, Send (JStr create_failed_text)]"
      "x = CreateFailed"
  | pre sid r where "\<not> author_is_client_user message" "channel_is_DM message"
      "content message \<noteq> []" "sid \<noteq> []"
      "(user_sessions (author_id message) = Some sid \<and> pre = []
          \<and> send_query_to_adk e user_sessions (''discord_'' @ str_int (author_id message)) sid
                (content message) = (user_sessions', [RunPost (run_request e (''discord_'' @ str_int (author_id message)) sid (content message))], r))
       \<or> (\<not> truthy_str (user_sessions (author_id message))
          \<and> sid = str_uuid (uuid4 (urandom16 e))
          \<and> pre = [CreatePost (create_request e (str_int (author_id message))
                     (''discord_'' @ str_int (author_id message)) sid)]
          \<and> \<not> transport_failure (post e (create_request e (str_int (author_id message))
                     (''discord_'' @ str_int (author_id message)) sid))
          \<and> send_query_to_adk e (user_sessions(author_id message \<mapsto> sid))
                (''discord_'' @ str_int (author_id message)) sid (content message)
              = (user_sessions', [RunPost (run_request e (''discord_'' @ str_int (author_id message)) sid (content message))], r))"
      "evs = pre @ [TypingEnter,
                    RunPost (run_request e (''discord_'' @ str_int (author_id message)) sid
                               (content message))]
               @ (case r of Inl ex \<Rightarrow> [TypingExit] | Inr v \<Rightarrow> [Send v, TypingExit])"
      "x = (case r of Inl ex \<Rightarrow> Uncaught ex | Inr v \<Rightarrow> Replied)"
proof -
  let ?uid = "author_id message"
  let ?u = "''discord_'' @ str_int ?uid"
  let ?new = "str_uuid (uuid4 (urandom16 e))"
  let ?crq = "create_request e (str_int ?uid) ?u ?new"
  show thesis
  proof (cases "author_is_client_user message")
    case True
    with run that(1) show ?thesis by (simp add: on_message_def)
  next
    case own: False
    show ?thesis
    proof (cases "channel_is_DM message")
      case False
      with own run that(2) show ?thesis by (simp add: on_message_def)
    next
      case dm: True
      show ?thesis
      proof (cases "content message = []")
        case True
        with own dm run that(3) show ?thesis by (simp add: on_message_def)
      next
        case msg: False
        show ?thesis
        proof (cases "truthy_str (user_sessions ?uid)")
          case True
          then obtain sid where sid: "user_sessions ?uid = Some sid" "sid \<noteq> []"
            by (cases "user_sessions ?uid") auto
          obtain reg1 evs1 r where sq: "send_query_to_adk e user_sessions ?u sid (content message) = (reg1, evs1, r)"
            by (cases "send_query_to_adk e user_sessions ?u sid (content message)") auto
          from send_query_events [of e user_sessions ?u sid "content message"] sq
          have evs1: "evs1 = [RunPost (run_request e ?u sid (content message))]" by simp
          from run own dm msg True sid sq evs1
          have "user_sessions' = reg1"
               "evs = [] @ [TypingEnter, RunPost (run_request e ?u sid (content message))]
                        @ (case r of Inl ex \<Rightarrow> [TypingExit] | Inr v \<Rightarrow> [Send v, TypingExit])"
               "x = (case r of Inl ex \<Rightarrow> Uncaught ex | Inr v \<Rightarrow> Replied)"
            by (auto simp: on_message_def Let_def relay_result split: sum.splits)
          with own dm msg sid sq evs1 that(5) [of sid "[]" r] show ?thesis by simp
        next
          case miss: False
          show ?thesis
          proof (cases "transport_failure (post e ?crq)")
            case True
            with run own dm msg miss that(4) [of ?crq] show ?thesis
              by (simp add: on_message_def Let_def create_adk_session_result)
          next
            case False
            let ?reg = "user_sessions(?uid \<mapsto> ?new)"
            obtain reg1 evs1 r where sq: "send_query_to_adk e ?reg ?u ?new (content message) = (reg1, evs1, r)"
              by (cases "send_query_to_adk e ?reg ?u ?new (content message)") auto
            from send_query_events [of e ?reg ?u ?new "content message"] sq
            have evs1: "evs1 = [RunPost (run_request e ?u ?new (content message))]" by simp
            from run own dm msg miss False sq evs1
            have "user_sessions' = reg1"
                 "evs = [CreatePost ?crq] @ [TypingEnter, RunPost (run_request e ?u ?new (content message))]
                          @ (case r of Inl ex \<Rightarrow> [TypingExit] | Inr v \<Rightarrow> [Send v, TypingExit])"
                 "x = (case r of Inl ex \<Rightarrow> Uncaught ex | Inr v \<Rightarrow> Replied)"
              by (auto simp: on_message_def Let_def create_adk_session_result relay_result
                    str_uuid_nonempty split: sum.splits)
            with own dm msg miss False sq evs1 that(5) [of ?new "[CreatePost ?crq]" r]
            show ?thesis by (simp add: str_uuid_nonempty)
          qed
        qed
      qed
    qed
  qed
qed

lemma reachable_nonempty: "reachable reg \<Longrightarrow> reg u = Some s \<Longrightarrow> s \<noteq> []"
proof (induction arbitrary: u s rule: reachable.induct)
  case start
  then show ?case by simp
next
  case (handled user_sessions e message)
  obtain reg' evs x where run: "on_message e message user_sessions = (reg', evs, x)"
    by (cases "on_message e message user_sessions") auto
  with handled.prems have reg': "reg' u = Some s" by simp
  from run show ?case
  proof (cases rule: on_message_cases)
    case (relayed pre sid r)
    from relayed(5) show ?thesis
    proof
      assume a: "user_sessions (author_id message) = Some sid \<and> pre = []
          \<and> send_query_to_adk e user_sessions (''discord_'' @ str_int (author_id message)) sid
                (content message) = (reg', [RunPost (run_request e (''discord_'' @ str_int (author_id message)) sid (content message))], r)"
      then have "fst (send_query_to_adk e user_sessions
                  (''discord_'' @ str_int (author_id message)) sid (content message)) = reg'"
        by simp
      with send_query_registry [of e user_sessions "''discord_'' @ str_int (author_id message)" sid "content message"]
      have "reg' = user_sessions \<or> reg' = Map.empty" by auto
      with reg' handled.IH show ?thesis by auto
    next
      let ?reg = "user_sessions(author_id message \<mapsto> sid)"
      assume a: "\<not> truthy_str (user_sessions (author_id message))
          \<and> sid = str_uuid (uuid4 (urandom16 e))
          \<and> pre = [CreatePost (create_request e (str_int (author_id message))
                     (''discord_'' @ str_int (author_id message)) sid)]
          \<and> \<not> transport_failure (post e (create_request e (str_int (author_id message))
                     (''discord_'' @ str_int (author_id message)) sid))
          \<and> send_query_to_adk e (user_sessions(author_id message \<mapsto> sid))
                (''discord_'' @ str_int (author_id message)) sid (content message)
              = (reg', [RunPost (run_request e (''discord_'' @ str_int (author_id message)) sid (content message))], r)"
      then have "fst (send_query_to_adk e ?reg
                  (''discord_'' @ str_int (author_id message)) sid (content message)) = reg'"
        by (elim conjE) (simp only: fst_conv)
      with send_query_registry [of e ?reg "''discord_'' @ str_int (author_id message)" sid "content message"]
      have "reg' = ?reg \<or> reg' = Map.empty" by auto
      with reg' have "(u = author_id message \<and> s = sid) \<or> user_sessions u = Some s"
        by (auto split: if_splits)
      with handled.IH [of u s] relayed(4) show ?thesis by blast
    qed
  qed (use reg' handled.IH in auto)
qed

lemma replies_at_most_one:
  assumes "\<not> author_is_client_user message" and "channel_is_DM message"
    and "on_message e message user_sessions = (user_sessions', evs, x)"
  shows "length (replies evs) \<le> 1
       \<and> (length (replies evs) = 1 \<longleftrightarrow> (\<forall>ex. x \<noteq> Uncaught ex))"
  using assms(3)
proof (cases rule: on_message_cases)
  case (relayed pre sid r)
  from relayed(5) have "replies pre = []" by auto
  with relayed(6,7) show ?thesis
    by (auto simp: replies_append split: sum.splits)
qed (use assms(1,2) in auto)

text \<open>
  No \<^verbatim>\<open>KeyError\<close> comes out of the loops of lines 115-120: every subscript is taken
  behind a test that the key is there.
\<close>

lemma scan_parts_no_KeyError: "scan_parts ps \<noteq> Inl KeyError"
proof (induction ps)
  case Nil
  then show ?case by simp
next
  case (Cons p ps)
  then show ?case
    by (cases p) (auto split: sum.splits bool.splits option.splits
          simp: map_of_eq_None_iff image_iff)
qed

text \<open>The definitions a run on a sample input unfolds.\<close>

lemmas run_defs = on_message_def on_message_relay_def send_query_to_adk_def send_query_try_def
  post_and_raise_for_status_def create_adk_session_def extract_reply_def is_model_item_def
  item_parts_def Let_def sample_env_def dm_def ok_def turn_def text_part_def backend_def
  created_def create_request_def run_request_def

lemma send_query_turn_sequence:
  assumes "post e (run_request e u s m) = Responds r"
    and "\<not> transport_failure (Responds r)"
    and "body r = Decodes (JArr ts)"
    and "turn_sequence (JArr ts)"
  shows "send_query_to_adk e reg u s m =
           (reg, [RunPost (run_request e u s m)],
            Inr (case reply_of_latest_model_text ts of
                   None \<Rightarrow> JStr not_understood_text | Some v \<Rightarrow> v))"
proof -
  from assms(1-3) have "send_query_try e (run_request e u s m) = extract_reply (JArr ts)"
    by (rule send_query_try_ok)
  with assms(4) show ?thesis
    by (simp only: extract_reply_turns send_query_to_adk_def Let_def sum.case)
qed

lemma same_reply_when_model_turns_have_text:
  assumes "list_all (\<lambda>t. role_is_model t \<longrightarrow> first_text (parts_of t) \<noteq> None) ts"
  shows "reply_of_latest_model_text ts = reply_of_latest_model_turn ts"
proof -
  from assms have "filter (\<lambda>t. role_is_model t \<and> first_text (parts_of t) \<noteq> None) (rev ts)
      = filter role_is_model (rev ts)"
    by (intro filter_cong) (auto simp: list_all_iff)
  then show ?thesis
    by (simp add: reply_of_latest_model_text_def reply_of_latest_model_turn_def)
qed

section \<open>The claims\<close>

text \<open>
  Claim C1. Whenever the POST of \<^verbatim>\<open>send_query_to_adk\<close> fails in transport (the call
  raises, or the status is 400 to 599), handling the message leaves the registry with no
  entry for any user, whoever sent the message and whoever else had a session, and the one
  reply sent is the fixed text asking the user to send the question again.
\<close>

theorem transport_failure_clears_registry:
  assumes "on_message e message user_sessions = (user_sessions', evs, x)"
    and "RunPost rq \<in> set evs"
    and "transport_failure (post e rq)"
  shows "user_sessions' = Map.empty \<and> replies evs = [JStr resend_text] \<and> x = Replied"
  using assms(1)
proof (cases rule: on_message_cases)
  case (relayed pre sid r)
  let ?rq = "run_request e (''discord_'' @ str_int (author_id message)) sid (content message)"
  from relayed(5,6) assms(2) have "rq = ?rq" by (auto split: sum.splits)
  with assms(3) have "\<And>reg. send_query_to_adk e reg (''discord_'' @ str_int (author_id message)) sid (content message)
     = (Map.empty, [RunPost ?rq], Inr (JStr resend_text))"
    by (simp add: send_query_failure)
  with relayed show ?thesis by (auto simp: replies_append)
qed (use assms(2) in auto)

theorem transport_failure_clears_registry_witness:
  "fst (on_message (sample_env (\<lambda>rq. Raises)) (dm 42 ''hello'')
          (Map.empty(42 \<mapsto> ''s42'', 7 \<mapsto> ''s7''))) = Map.empty
   \<and> replies (fst (snd (on_message (sample_env (\<lambda>rq. Raises)) (dm 42 ''hello'')
          (Map.empty(42 \<mapsto> ''s42'', 7 \<mapsto> ''s7''))))) = [JStr resend_text]"
  using transport_failure_clears_registry
    [where e = "sample_env (\<lambda>rq. Raises)" and message = "dm 42 ''hello''"
       and user_sessions = "Map.empty(42 \<mapsto> ''s42'', 7 \<mapsto> ''s7'')"
       and user_sessions' = "fst (on_message (sample_env (\<lambda>rq. Raises)) (dm 42 ''hello'')
          (Map.empty(42 \<mapsto> ''s42'', 7 \<mapsto> ''s7'')))"
       and evs = "fst (snd (on_message (sample_env (\<lambda>rq. Raises)) (dm 42 ''hello'')
          (Map.empty(42 \<mapsto> ''s42'', 7 \<mapsto> ''s7''))))"
       and x = "snd (snd (on_message (sample_env (\<lambda>rq. Raises)) (dm 42 ''hello'')
          (Map.empty(42 \<mapsto> ''s42'', 7 \<mapsto> ''s7''))))"
       and rq = "run_request (sample_env (\<lambda>rq. Raises)) (''discord_'' @ str_int 42) ''s42'' ''hello''"]
  by (simp add: run_defs)

text \<open>
  Claim C2, as the code has it. For a response that is a sequence of turn objects,
  \<^verbatim>\<open>send_query_to_adk\<close> returns the first text part of the most recent turn whose
  role is "model" and that has a text part: a model turn with no text part is passed over
  and the scan goes on to older turns. With no such turn the fixed not-understood text is
  returned. Where every model turn has a text part, this is the first text part of the most
  recent model turn, as the specification words it.
\<close>

theorem reply_is_latest_model_text:
  assumes "post e (run_request e u s m) = Responds r"
    and "\<not> transport_failure (Responds r)"
    and "body r = Decodes (JArr ts)"
    and "turn_sequence (JArr ts)"
  shows "send_query_to_adk e user_sessions u s m =
           (user_sessions, [RunPost (run_request e u s m)],
            Inr (case reply_of_latest_model_text ts of
                   None \<Rightarrow> JStr not_understood_text | Some v \<Rightarrow> v))
       \<and> (list_all (\<lambda>t. role_is_model t \<longrightarrow> first_text (parts_of t) \<noteq> None) ts
            \<longrightarrow> reply_of_latest_model_text ts = reply_of_latest_model_turn ts)"
  using send_query_turn_sequence [OF assms] same_reply_when_model_turns_have_text by blast

theorem reply_is_latest_model_text_witness:
  "send_query_to_adk
     (sample_env (\<lambda>rq. ok (JArr [turn ''model'' [text_part ''A''],
                                  turn ''model'' [JObj [(''functionCall'', JObj [])]]])))
     Map.empty ''discord_42'' ''s42'' ''hello''
   = (Map.empty,
      [RunPost (run_request
         (sample_env (\<lambda>rq. ok (JArr [turn ''model'' [text_part ''A''],
                                      turn ''model'' [JObj [(''functionCall'', JObj [])]]])))
         ''discord_42'' ''s42'' ''hello'')],
      Inr (JStr ''A''))"
  using reply_is_latest_model_text
    [where e = "sample_env (\<lambda>rq. ok (JArr [turn ''model'' [text_part ''A''],
                                  turn ''model'' [JObj [(''functionCall'', JObj [])]]]))"
       and u = "''discord_42''" and s = "''s42''" and m = "''hello''"
       and r = "\<lparr>status_code = 200, body = Decodes (JArr [turn ''model'' [text_part ''A''],
                                  turn ''model'' [JObj [(''functionCall'', JObj [])]]])\<rparr>"
       and ts = "[turn ''model'' [text_part ''A''],
                  turn ''model'' [JObj [(''functionCall'', JObj [])]]]"
       and user_sessions = Map.empty]
  by (simp add: sample_env_def ok_def turn_def text_part_def reply_of_latest_model_text_def
        role_is_model_def parts_of_def)

text \<open>
  Claim C2 as worded fails where the most recent model turn carries no text part (here a
  function call) and an older model turn does: the code returns the older turn's text,
  while the most recent model turn has no first text part to take.
\<close>

theorem reply_of_latest_model_turn_counterexample:
  "extract_reply (JArr [turn ''model'' [text_part ''A''],
                        turn ''model'' [JObj [(''functionCall'', JObj [])]]]) = Inr (JStr ''A'')
   \<and> reply_of_latest_model_turn [turn ''model'' [text_part ''A''],
                        turn ''model'' [JObj [(''functionCall'', JObj [])]]] = None"
  by (simp add: run_defs reply_of_latest_model_turn_def role_is_model_def parts_of_def)

text \<open>
  Claim C3, as the code has it. On a transport failure it is \<^verbatim>\<open>send_query_to_adk\<close>
  itself that clears the whole registry, and it returns the fixed resend text as an ordinary
  result; the rest of the handler sends that text and changes the registry no further.
\<close>

theorem send_query_clears_registry_itself:
  assumes "transport_failure (post e (run_request e u s m))" and "u \<noteq> []" and "s \<noteq> []"
  shows "send_query_to_adk e user_sessions u s m
           = (Map.empty, [RunPost (run_request e u s m)], Inr (JStr resend_text))
       \<and> on_message_relay e user_sessions evs (Some u) (Some s) m
           = (Map.empty,
              evs @ [TypingEnter, RunPost (run_request e u s m), Send (JStr resend_text), TypingExit],
              Replied)"
  using assms by (simp add: send_query_failure on_message_relay_def)

theorem send_query_clears_registry_itself_witness:
  "send_query_to_adk (sample_env (\<lambda>rq. Raises)) (Map.empty(7 \<mapsto> ''s7'')) ''discord_7'' ''s7'' ''hi''
     = (Map.empty, [RunPost (run_request (sample_env (\<lambda>rq. Raises)) ''discord_7'' ''s7'' ''hi'')],
        Inr (JStr resend_text))"
  using send_query_clears_registry_itself
    [where e = "sample_env (\<lambda>rq. Raises)" and u = "''discord_7''" and s = "''s7''" and m = "''hi''"
       and user_sessions = "Map.empty(7 \<mapsto> ''s7'')"]
  by (simp add: sample_env_def)

text \<open>
  Claim C3 as worded fails: after a failed POST the registry \<^verbatim>\<open>send_query_to_adk\<close>
  hands back has lost the entry it was called with.
\<close>

theorem send_query_no_mutation_counterexample:
  "fst (send_query_to_adk (sample_env (\<lambda>rq. Raises)) (Map.empty(7 \<mapsto> ''s7''))
          ''discord_7'' ''s7'' ''hi'') 7 = None
   \<and> (Map.empty(7 \<mapsto> ''s7'') :: registry) 7 = Some ''s7''"
  by (simp add: run_defs)

text \<open>
  Claim C4. Whenever the POST of \<^verbatim>\<open>create_adk_session\<close> fails in transport,
  \<^verbatim>\<open>create_adk_session\<close> returns \<^verbatim>\<open>(None, None)\<close>, the handler sends the fixed
  text saying no session could be created and returns, the backend's run endpoint is not
  called, and the registry is the one the handler started with.
\<close>

theorem create_failure_leaves_registry:
  assumes "on_message e message user_sessions = (user_sessions', evs, x)"
    and "CreatePost rq \<in> set evs"
    and "transport_failure (post e rq)"
  shows "snd (create_adk_session e (str_int (author_id message))) = (None, None)
       \<and> user_sessions' = user_sessions
       \<and> replies evs = [JStr create_failed_text]
       \<and> run_posts evs = []
       \<and> x = CreateFailed"
  using assms(1)
proof (cases rule: on_message_cases)
  case (relayed pre sid r)
  with assms(2,3) show ?thesis by (auto split: sum.splits)
qed (use assms(2) in auto)

theorem create_failure_leaves_registry_witness:
  "on_message (sample_env (\<lambda>rq. Responds \<lparr>status_code = 503, body = NotJSON\<rparr>)) (dm 42 ''hello'')
          (Map.empty(7 \<mapsto> ''s7''))
     = (Map.empty(7 \<mapsto> ''s7''),
        [CreatePost (create_request (sample_env (\<lambda>rq. Responds \<lparr>status_code = 503, body = NotJSON\<rparr>))
           (str_int 42) (''discord_'' @ str_int 42) (str_uuid (uuid4 0))),
         Send (JStr create_failed_text)],
        CreateFailed)"
  using create_failure_leaves_registry
    [where e = "sample_env (\<lambda>rq. Responds \<lparr>status_code = 503, body = NotJSON\<rparr>)" and message = "dm 42 ''hello''"
       and user_sessions = "Map.empty(7 \<mapsto> ''s7'')"
       and user_sessions' = "fst (on_message (sample_env (\<lambda>rq. Responds \<lparr>status_code = 503, body = NotJSON\<rparr>)) (dm 42 ''hello'')
          (Map.empty(7 \<mapsto> ''s7'')))"
       and evs = "fst (snd (on_message (sample_env (\<lambda>rq. Responds \<lparr>status_code = 503, body = NotJSON\<rparr>)) (dm 42 ''hello'')
          (Map.empty(7 \<mapsto> ''s7''))))"
       and x = "snd (snd (on_message (sample_env (\<lambda>rq. Responds \<lparr>status_code = 503, body = NotJSON\<rparr>)) (dm 42 ''hello'')
          (Map.empty(7 \<mapsto> ''s7''))))"
       and rq = "create_request (sample_env (\<lambda>rq. Responds \<lparr>status_code = 503, body = NotJSON\<rparr>))
           (str_int 42) (''discord_'' @ str_int 42) (str_uuid (uuid4 0))"]
  by (simp add: run_defs)

text \<open>
  Claim C5: every direct message not written by the bot is answered with exactly one reply,
  on every path. The handler never sends more than one (\<open>replies_at_most_one\<close>), but it
  sends none when an exception leaves \<^verbatim>\<open>send_query_to_adk\<close>: the handlers of lines
  122-128 catch \<^verbatim>\<open>RequestException\<close>, \<^verbatim>\<open>JSONDecodeError\<close> and
  \<^verbatim>\<open>KeyError\<close> only. When the run endpoint answers 200 with the body
  \<^verbatim>\<open>null\<close>, \<^verbatim>\<open>reversed(None)\<close> raises a \<^verbatim>\<open>TypeError\<close>, the handler
  is left before \<^verbatim>\<open>message.channel.send\<close>, and the message gets no reply.
\<close>

theorem null_body_sends_no_reply:
  "\<not> author_is_client_user (dm 42 ''hello'') \<and> channel_is_DM (dm 42 ''hello'')
   \<and> replies (fst (snd (on_message (sample_env (backend created (ok JNull)))
         (dm 42 ''hello'') Map.empty))) = []
   \<and> snd (snd (on_message (sample_env (backend created (ok JNull)))
         (dm 42 ''hello'') Map.empty)) = Uncaught TypeError"
  by (simp add: run_defs str_uuid_nonempty)

text \<open>
  Claim C6: a response with no turn of role "model" yields the fixed not-understood text
  and never an exception, for every body that decodes. The code breaks it for a turn whose
  \<open>content\<close> is a string: the turn has no role "model", and
  \<^verbatim>\<open>"hi".get("role")\<close> raises an \<^verbatim>\<open>AttributeError\<close> that neither handler
  catches, so \<^verbatim>\<open>send_query_to_adk\<close> raises instead of returning the text.
\<close>

theorem string_content_raises:
  "filter role_is_model [JObj [(''content'', JStr ''hi'')]] = []
   \<and> snd (snd (send_query_to_adk (sample_env (\<lambda>rq. ok (JArr [JObj [(''content'', JStr ''hi'')]])))
        Map.empty ''discord_42'' ''s42'' ''hello'')) = Inl AttributeError"
  by (simp add: run_defs role_is_model_def)

text \<open>
  Claim C7. In every registry the process can hold, an entry of a user stays what it is
  through the handling of any message, or the whole registry is cleared; while the user has
  an entry, handling a message of theirs posts no session creation, and a message with text
  is posted to the run endpoint with the stored session id.
\<close>

theorem existing_session_reused:
  assumes "reachable user_sessions"
    and "user_sessions u = Some s"
    and "on_message e message user_sessions = (user_sessions', evs, x)"
  shows "(user_sessions' u = Some s \<or> user_sessions' = Map.empty)
       \<and> (author_id message = u \<longrightarrow> create_posts evs = [])
       \<and> (author_id message = u \<and> \<not> author_is_client_user message \<and> channel_is_DM message
            \<and> content message \<noteq> []
          \<longrightarrow> run_posts evs = [run_request e (''discord_'' @ str_int u) s (content message)])"
proof -
  from assms(1,2) have s: "s \<noteq> []" by (rule reachable_nonempty)
  from assms(3) show ?thesis
  proof (cases rule: on_message_cases)
    case (create_failed rq)
    with assms(2) s show ?thesis by auto
  next
    case (relayed pre sid r)
    let ?a = "author_id message"
    let ?rq = "run_request e (''discord_'' @ str_int ?a) sid (content message)"
    from relayed(5) have "run_posts pre = []" by auto
    with relayed(6) have posts: "run_posts evs = [?rq]" "create_posts evs = create_posts pre"
      by (auto simp: run_posts_append create_posts_append split: sum.splits)
    from relayed(5) show ?thesis
    proof
      assume hit: "user_sessions ?a = Some sid \<and> pre = []
          \<and> send_query_to_adk e user_sessions (''discord_'' @ str_int ?a) sid (content message)
              = (user_sessions', [RunPost ?rq], r)"
      then have "fst (send_query_to_adk e user_sessions (''discord_'' @ str_int ?a) sid
                   (content message)) = user_sessions'"
        by (elim conjE) (simp only: fst_conv)
      with send_query_registry [of e user_sessions "''discord_'' @ str_int ?a" sid "content message"]
      have "user_sessions' = user_sessions \<or> user_sessions' = Map.empty" by auto
      with hit assms(2) posts show ?thesis by auto
    next
      let ?reg = "user_sessions(?a \<mapsto> sid)"
      assume miss: "\<not> truthy_str (user_sessions ?a)
          \<and> sid = str_uuid (uuid4 (urandom16 e))
          \<and> pre = [CreatePost (create_request e (str_int ?a) (''discord_'' @ str_int ?a) sid)]
          \<and> \<not> transport_failure (post e (create_request e (str_int ?a)
                     (''discord_'' @ str_int ?a) sid))
          \<and> send_query_to_adk e (user_sessions(?a \<mapsto> sid)) (''discord_'' @ str_int ?a) sid
                (content message) = (user_sessions', [RunPost ?rq], r)"
      then have "fst (send_query_to_adk e ?reg (''discord_'' @ str_int ?a) sid
                   (content message)) = user_sessions'"
        by (elim conjE) (simp only: fst_conv)
      with send_query_registry [of e ?reg "''discord_'' @ str_int ?a" sid "content message"]
      have reg': "user_sessions' = ?reg \<or> user_sessions' = Map.empty" by auto
      from miss assms(2) s have other: "?a \<noteq> u" by auto
      with reg' assms(2) show ?thesis by auto
    qed
  qed (use assms(2) in auto)
qed

theorem existing_session_reused_witness:
  "reachable (Map.empty(42 \<mapsto> str_uuid (uuid4 0)))
   \<and> create_posts (fst (snd (on_message
         (sample_env (backend created (ok (JArr [turn ''model'' [text_part ''Hi there!'']]))))
         (dm 42 ''how are you'') (Map.empty(42 \<mapsto> str_uuid (uuid4 0)))))) = []
   \<and> run_posts (fst (snd (on_message
         (sample_env (backend created (ok (JArr [turn ''model'' [text_part ''Hi there!'']]))))
         (dm 42 ''how are you'') (Map.empty(42 \<mapsto> str_uuid (uuid4 0))))))
       = [run_request (sample_env (backend created (ok (JArr [turn ''model'' [text_part ''Hi there!'']]))))
            (''discord_'' @ str_int 42) (str_uuid (uuid4 0)) ''how are you'']
   \<and> fst (on_message
         (sample_env (backend created (ok (JArr [turn ''model'' [text_part ''Hi there!'']]))))
         (dm 42 ''how are you'') (Map.empty(42 \<mapsto> str_uuid (uuid4 0)))) 42
       = Some (str_uuid (uuid4 0))"
proof -
  let ?e = "sample_env (backend created (ok (JArr [turn ''model'' [text_part ''Hi there!'']])))"
  let ?reg = "Map.empty(42 \<mapsto> str_uuid (uuid4 0)) :: registry"
  have "fst (on_message ?e (dm 42 ''hello'') Map.empty) = ?reg"
    by (simp add: run_defs str_uuid_nonempty)
  with reachable.handled [OF reachable.start, of ?e "dm 42 ''hello''"]
  have r: "reachable ?reg" by simp
  have l: "?reg 42 = Some (str_uuid (uuid4 0))" by simp
  have run: "on_message ?e (dm 42 ''how are you'') ?reg
     = (fst (on_message ?e (dm 42 ''how are you'') ?reg),
        fst (snd (on_message ?e (dm 42 ''how are you'') ?reg)),
        snd (snd (on_message ?e (dm 42 ''how are you'') ?reg)))" by simp
  have same: "fst (on_message ?e (dm 42 ''how are you'') ?reg) \<noteq> Map.empty"
    by (simp add: run_defs str_uuid_nonempty)
  from existing_session_reused [OF r l run] r same show ?thesis
    by (simp add: dm_def)
qed

text \<open>
  Claim C8. A direct message with empty text, not written by the bot, is answered with the
  static greeting and nothing else happens: no request is posted for a session or for a
  run, and the registry is unchanged.
\<close>

theorem empty_text_short_circuits:
  assumes "\<not> author_is_client_user message" and "channel_is_DM message"
    and "content message = []"
  shows "on_message e message user_sessions
           = (user_sessions, [Send (JStr greeting_text)], Greeted)
       \<and> create_posts (fst (snd (on_message e message user_sessions))) = []
       \<and> run_posts (fst (snd (on_message e message user_sessions))) = []"
  using assms by (simp add: on_message_def)

theorem empty_text_short_circuits_witness:
  "on_message (sample_env (\<lambda>rq. Raises)) (dm 42 []) (Map.empty(7 \<mapsto> ''s7''))
     = (Map.empty(7 \<mapsto> ''s7''), [Send (JStr greeting_text)], Greeted)"
  using empty_text_short_circuits
    [where e = "sample_env (\<lambda>rq. Raises)" and message = "dm 42 []"
       and user_sessions = "Map.empty(7 \<mapsto> ''s7'')"]
  by (simp add: dm_def)

text \<open>
  Claim C9. \<^verbatim>\<open>create_adk_session\<close> returns either \<^verbatim>\<open>(None, None)\<close> or a pair
  whose two components are both present; never one without the other.
\<close>

theorem create_adk_session_pair:
  "snd (create_adk_session e uid) = (None, None)
   \<or> snd (create_adk_session e uid)
       = (Some (''discord_'' @ uid), Some (str_uuid (uuid4 (urandom16 e))))"
  by (simp add: create_adk_session_result Let_def)

text \<open>
  Claim C10. No run of the handler leaves by the branch of lines 181-183: whenever that
  check is reached, both \<^verbatim>\<open>current_adk_user_id\<close> and \<^verbatim>\<open>adk_session_id\<close> are
  non-empty strings, so the session-issue text is never sent from there.
\<close>

theorem session_issue_unreachable:
  "snd (snd (on_message e message user_sessions)) \<noteq> SessionIssue"
proof -
  obtain reg' evs x where run: "on_message e message user_sessions = (reg', evs, x)"
    by (cases "on_message e message user_sessions") auto
  from run have "x \<noteq> SessionIssue"
    by (cases rule: on_message_cases) (auto split: sum.splits)
  with run show ?thesis by simp
qed

end
